theory Spec2Isabelle
  imports Main "HOL-Library.Word"
begin

section \<open>Values handled by the CBOR-LD decoder (src/lib/decode.js)\<close>

text \<open>
  The decoder of \<^verbatim>\<open>src/lib/decode.js\<close> works on JavaScript values: what
  \<^verbatim>\<open>cbor.decode\<close> returns (numbers, strings, booleans, null, undefined, byte
  buffers, arrays, \<^verbatim>\<open>Map\<close> instances, plain objects, \<^verbatim>\<open>Tagged\<close> wrappers) and
  the codec instances the decoder itself creates. Numbers are integers here; the
  decoder never computes with them.
\<close>

datatype codec_class =
    Base64PadCodec
  | CodecMapCodec
  | CompressedCborldCodec
  | ContextCodec
  | SimpleTypeCodec
  | UncompressedCborldCodec
  | UrlCodec
  | XsdDateTimeCodec
  | AppCodec string

text \<open>
  \<^verbatim>\<open>appContextMap\<close>: context URL to codec value; \<^verbatim>\<open>appTermMap\<close>: term to codec
  class (a plain object, so \<^verbatim>\<open>Object.keys(appTermMap).length > 0\<close> is non-emptiness
  of the list).
\<close>

type_synonym appContextMap = "(string \<times> int) list"
type_synonym appTermMap = "(string \<times> codec_class) list"

text \<open>
  Modelled from the spec: the Term Codec Map built by \<^verbatim>\<open>getTermCodecMap\<close>
  (\<^verbatim>\<open>./codec\<close>, not part of the sources). It is a \<^verbatim>\<open>Map\<close> whose keys are integer term
  ids or names such as \<^verbatim>\<open>'@codec'\<close>, and whose entries pair a term (\<^verbatim>\<open>.value\<close>) with
  a codec class (\<^verbatim>\<open>.codec\<close>).
\<close>

datatype tkey = TId int | TName string

datatype tcm_entry = Entry (entry_term: string) (entry_codec: codec_class)

type_synonym termCodecMap = "(tkey \<times> tcm_entry) list"

text \<open>What a codec instance received through \<^verbatim>\<open>set({value, ...})\<close>.\<close>

datatype 'a loaded = Value 'a | TermMap appTermMap

datatype jsval =
    JNum int
  | JStr string
  | JBool bool
  | JNull
  | JUndefined
  | JBytes "8 word list"
  | JArr "jsval list"
  | JMap "(jsval \<times> jsval) list"
  | JObj "(string \<times> jsval) list"
  | JTagged nat jsval
  | JCodec codec_class "jsval loaded" "appContextMap option" "termCodecMap option"

text \<open>
  \<^verbatim>\<open>JMap\<close> is a \<^verbatim>\<open>Map\<close> instance with its entries in insertion order, \<^verbatim>\<open>JObj\<close> a
  plain object as \<^verbatim>\<open>cbor.decode\<close> builds it, by the assignments \<^verbatim>\<open>obj[key] = value\<close> of
  the listed entries (so an entry under \<^verbatim>\<open>__proto__\<close> is not an own property: it
  gives the object its prototype), \<^verbatim>\<open>JTagged\<close> a \<^verbatim>\<open>cbor.Tagged\<close>, and
  \<^verbatim>\<open>JCodec c v acm tcm\<close> the object made by \<^verbatim>\<open>new c()\<close> followed by
  \<^verbatim>\<open>set({value: v, appContextMap: acm, termCodecMap: tcm})\<close>.
\<close>

datatype message =
    Text string
  | UnknownTerm jsval
  | UnknownEncoding jsval jsval

text \<open>
  Every \<^verbatim>\<open>throw\<close> is a value. \<^verbatim>\<open>CborldError code msg\<close> is \<^verbatim>\<open>new CborldError(code, msg)\<close>;
  the two template messages are kept structured: \<^verbatim>\<open>UnknownTerm key\<close> stands for
  \<^verbatim>\<open>Unknown term '${key}' was detected in JSON-LD input.\<close> and
  \<^verbatim>\<open>UnknownEncoding key value\<close> for
  \<^verbatim>\<open>Unknown encoding for '${key}' detected in CBOR-LD input: ${util.inspect(value)}\<close>.
  \<^verbatim>\<open>TypeError\<close> is what the engine raises on a property read of null or undefined
  and on a call of something that is not a function, \<^verbatim>\<open>RangeError\<close> what it raises
  when the call stack is exhausted, \<^verbatim>\<open>Thrown\<close> an error of a collaborator.
\<close>

datatype error =
    TypeError
  | RangeError
  | CborldError string message
  | Thrown string

subsection \<open>Primitive operations of the language\<close>

text \<open>\<^verbatim>\<open>value instanceof Map\<close> and \<^verbatim>\<open>Array.isArray(value)\<close>.\<close>

fun isMap :: "jsval \<Rightarrow> bool" where
  "isMap (JMap kvs) = True"
| "isMap v = False"

fun isArray :: "jsval \<Rightarrow> bool" where
  "isArray (JArr xs) = True"
| "isArray v = False"

text \<open>
  A property read on a plain object looks at the own properties and then follows
  the prototype. The assignment \<^verbatim>\<open>obj['__proto__'] = p\<close> makes \<^verbatim>\<open>p\<close> the prototype
  when \<^verbatim>\<open>p\<close> is an object or null and does nothing when \<^verbatim>\<open>p\<close> is another
  primitive; without it the prototype is \<^verbatim>\<open>Object.prototype\<close>.
\<close>

lemma size_map_of: "map_of kvs k = Some p \<Longrightarrow> size p < size (JObj kvs)"
  by (induction kvs) (auto split: if_splits)

text \<open>
  \<^verbatim>\<open>x.constructor === Object\<close> for a plain object \<^verbatim>\<open>x\<close>: an own property of that
  name is data and never the function \<^verbatim>\<open>Object\<close>; otherwise the prototype decides:
  \<^verbatim>\<open>Object.prototype\<close> gives \<^verbatim>\<open>Object\<close>, a plain object is asked in turn, null gives
  undefined, and an array, map, buffer or tagged value gives its own constructor.
\<close>

function constructorIsObject :: "jsval \<Rightarrow> bool" where
  "constructorIsObject (JObj kvs) =
     (case map_of kvs ''constructor'' of
        Some c \<Rightarrow> False
      | None \<Rightarrow>
          (case map_of kvs ''__proto__'' of
             None \<Rightarrow> True
           | Some p \<Rightarrow>
               (case p of
                  JObj q \<Rightarrow> constructorIsObject p
                | JNum i \<Rightarrow> True
                | JStr s \<Rightarrow> True
                | JBool b \<Rightarrow> True
                | JUndefined \<Rightarrow> True
                | _ \<Rightarrow> False)))"
| "constructorIsObject (JNum i) = False"
| "constructorIsObject (JStr s) = False"
| "constructorIsObject (JBool b) = False"
| "constructorIsObject JNull = False"
| "constructorIsObject JUndefined = False"
| "constructorIsObject (JBytes bs) = False"
| "constructorIsObject (JArr xs) = False"
| "constructorIsObject (JMap kvs) = False"
| "constructorIsObject (JTagged t v) = False"
| "constructorIsObject (JCodec c l acm tcm) = False"
  by pat_completeness auto

termination constructorIsObject
  by (relation "measure size") (auto simp: size_map_of simp del: jsval.size)

text \<open>
  \<^verbatim>\<open>typeof element === 'object' && element.constructor === Object\<close>: null has type
  \<^verbatim>\<open>'object'\<close> and no properties, so the read of \<^verbatim>\<open>constructor\<close> throws; for a plain
  object see above; arrays, maps, buffers, tagged values and codec instances have
  other constructors; the other primitives are not of type \<^verbatim>\<open>'object'\<close>.
\<close>

fun isPlainObject :: "jsval \<Rightarrow> error + bool" where
  "isPlainObject JNull = Inl TypeError"
| "isPlainObject (JObj kvs) = Inr (constructorIsObject (JObj kvs))"
| "isPlainObject v = Inr False"

text \<open>
  \<^verbatim>\<open>x.entries()\<close>: a \<^verbatim>\<open>Map\<close> yields its entries, an array and a buffer yield
  \<^verbatim>\<open>[index, element]\<close> pairs, and every other value has no callable \<^verbatim>\<open>entries\<close>:
  on a plain object the property is missing or data, also when it comes from a
  prototype that is a plain object. (A plain object that was given an array as
  prototype would inherit the array's \<^verbatim>\<open>entries\<close>; this is not modelled. The
  recursive calls of the builder never meet one, it fails the test of line 104.)
\<close>

fun indexed :: "nat \<Rightarrow> jsval list \<Rightarrow> (jsval \<times> jsval) list" where
  "indexed i [] = []"
| "indexed i (x # xs) = (JNum (int i), x) # indexed (Suc i) xs"

fun entries :: "jsval \<Rightarrow> error + (jsval \<times> jsval) list" where
  "entries (JMap kvs) = Inr kvs"
| "entries (JArr xs) = Inr (indexed 0 xs)"
| "entries (JBytes bs) = Inr (indexed 0 (map (\<lambda>b. JNum (uint b)) bs))"
| "entries v = Inl TypeError"

text \<open>
  \<^verbatim>\<open>termCodecMap.get(key)\<close>: \<^verbatim>\<open>Map.get\<close> compares with SameValueZero, so only a
  number or a string can be equal to a key of the Term Codec Map.
\<close>

fun tcm_get :: "termCodecMap \<Rightarrow> jsval \<Rightarrow> tcm_entry option" where
  "tcm_get tcm (JNum i) = map_of tcm (TId i)"
| "tcm_get tcm (JStr s) = map_of tcm (TName s)"
| "tcm_get tcm k = None"

text \<open>
  \<^verbatim>\<open>decodingMap.set(term, v)\<close>: an existing key keeps its place and takes the new
  value, a new key goes to the end.
\<close>

fun map_set :: "('k \<times> 'v) list \<Rightarrow> 'k \<Rightarrow> 'v \<Rightarrow> ('k \<times> 'v) list" where
  "map_set [] k v = [(k, v)]"
| "map_set ((k', v') # m) k v = (if k' = k then (k, v) # m else (k', v') # map_set m k v)"

section \<open>The Decoding Tree Builder: \<^verbatim>\<open>_generateDecodingMap\<close>\<close>

text \<open>
  Lines 76--80: the entry for the application term map. The read
  \<^verbatim>\<open>termCodecMap.get('@codec').value\<close> throws when the map has no such key.
\<close>

definition codecEntry ::
  "appTermMap option \<Rightarrow> termCodecMap option \<Rightarrow> error + (jsval \<times> jsval) list" where
  "codecEntry appTermMap termCodecMap =
     (case appTermMap of
        None \<Rightarrow> Inr []
      | Some atm \<Rightarrow>
          (if atm = [] then Inr []
           else (case termCodecMap of
                   None \<Rightarrow> Inr []
                 | Some tcm \<Rightarrow>
                     (case tcm_get tcm (JStr ''@codec'') of
                        None \<Rightarrow> Inl TypeError
                      | Some e \<Rightarrow>
                          Inr [(JStr (entry_term e),
                                JCodec CodecMapCodec (TermMap atm) None (Some tcm))]))))"

text \<open>
  Lines 84--92: the check for an unknown key and the resolution of the term.
\<close>

definition resolveTerm :: "termCodecMap option \<Rightarrow> jsval \<Rightarrow> error + jsval" where
  "resolveTerm termCodecMap key =
     (case termCodecMap of
        None \<Rightarrow> Inr key
      | Some tcm \<Rightarrow>
          (case tcm_get tcm key of
             None \<Rightarrow> Inl (CborldError ''ERR_UNKNOWN_CBORLD_TERM'' (UnknownTerm key))
           | Some e \<Rightarrow> Inr (JStr (entry_term e))))"

text \<open>
  Lines 107--111 and 114--118: a fresh instance of the codec registered for the key,
  loaded with the value; without a Term Codec Map the value stays as it is. The
  entry exists here, the check of line 84 has passed.
  Modelled from the spec: the codec classes (\<^verbatim>\<open>./codecs/*\<close>) are not part of the
  sources; their constructor and \<^verbatim>\<open>set\<close> store what they are given and do not
  throw, so an instance is the class with the arguments of \<^verbatim>\<open>set\<close>.
\<close>

definition loadCodec ::
  "termCodecMap option \<Rightarrow> appContextMap option \<Rightarrow> jsval \<Rightarrow> jsval \<Rightarrow> error + jsval" where
  "loadCodec termCodecMap appContextMap key v =
     (case termCodecMap of
        None \<Rightarrow> Inr v
      | Some tcm \<Rightarrow>
          (case tcm_get tcm key of
             None \<Rightarrow> Inl TypeError
           | Some e \<Rightarrow> Inr (JCodec (entry_codec e) (Value v) appContextMap (Some tcm))))"

text \<open>
  \<^verbatim>\<open>generateDecodingMap\<close> is the function, \<^verbatim>\<open>generateEntries\<close> its loop over the
  entries (lines 82--121) with the decoding map built so far, \<^verbatim>\<open>generateValue\<close> the
  computation of \<^verbatim>\<open>decodedValue\<close> (lines 95--118) and \<^verbatim>\<open>generateElements\<close> the
  \<^verbatim>\<open>forEach\<close> over an array (lines 101--113).
  The recursion follows the nesting of the input: \<^verbatim>\<open>_generateDecodingMap\<close> calls
  itself on a \<^verbatim>\<open>Map\<close> value and on a plain-object array element only. The
  measures below decrease along every call.
\<close>

definition measureValue :: "jsval \<Rightarrow> nat" where
  "measureValue v = 4 * size v + 1 + (case v of JBytes bs \<Rightarrow> 3 * length bs | _ \<Rightarrow> 0)"

definition measureStep :: "jsval \<Rightarrow> nat" where
  "measureStep v = 4 * size v + 2"

definition measureEntries :: "(jsval \<times> jsval) list \<Rightarrow> nat" where
  "measureEntries kvs = sum_list (map (\<lambda>p. 4 * size (snd p) + 3) kvs)"

definition measureElements :: "jsval list \<Rightarrow> nat" where
  "measureElements xs = sum_list (map (\<lambda>x. 4 * size x + 3) xs)"

lemma measureEntries_indexed: "measureEntries (indexed i xs) = measureElements xs"
  by (induction xs arbitrary: i) (auto simp: measureEntries_def measureElements_def)

lemma measureElements_le: "measureElements xs \<le> 4 * size_list size xs"
  by (induction xs) (auto simp: measureElements_def)

lemma measureEntries_le: "measureEntries kvs \<le> 4 * size_list (size_prod size size) kvs"
  by (induction kvs) (auto simp: measureEntries_def)

lemma measureElements_bytes: "measureElements (map (\<lambda>b. JNum (uint b)) bs) = 3 * length bs"
  by (induction bs) (auto simp: measureElements_def)

lemma measure_entries: "entries v = Inr kvs \<Longrightarrow> measureEntries kvs < measureValue v"
proof (cases v)
  case (JMap x)
  then show "entries v = Inr kvs \<Longrightarrow> measureEntries kvs < measureValue v"
    using measureEntries_le [of x] by (auto simp: measureValue_def)
next
  case (JArr x)
  then show "entries v = Inr kvs \<Longrightarrow> measureEntries kvs < measureValue v"
    using measureElements_le [of x] by (auto simp: measureValue_def measureEntries_indexed)
next
  case (JBytes x)
  then show "entries v = Inr kvs \<Longrightarrow> measureEntries kvs < measureValue v"
    by (auto simp: measureValue_def measureEntries_indexed measureElements_bytes)
qed auto

lemma measure_entry_value: "measureStep v < measureEntries ((k, v) # rest)"
  by (simp add: measureEntries_def measureStep_def)

lemma measure_map_value: "measureValue (JMap m) < measureStep (JMap m)"
  by (simp add: measureValue_def measureStep_def)

lemma measure_array_value: "measureElements xs < measureStep (JArr xs)"
  using measureElements_le [of xs] by (simp add: measureStep_def)

lemma measure_rest_entries: "measureEntries rest < measureEntries (p # rest)"
  by (simp add: measureEntries_def)

lemma measure_plain_element:
  "isPlainObject x = Inr True \<Longrightarrow> measureValue x < measureElements (x # xs)"
  by (cases x) (auto simp: measureValue_def measureElements_def)

lemma measure_rest_elements: "measureElements xs < measureElements (x # xs)"
  by (simp add: measureElements_def)

function generateDecodingMap ::
    "jsval \<Rightarrow> appContextMap option \<Rightarrow> appTermMap option \<Rightarrow> termCodecMap option \<Rightarrow> error + jsval"
  and generateEntries ::
    "(jsval \<times> jsval) list \<Rightarrow> appContextMap option \<Rightarrow> termCodecMap option \<Rightarrow>
       (jsval \<times> jsval) list \<Rightarrow> error + (jsval \<times> jsval) list"
  and generateValue ::
    "jsval \<Rightarrow> jsval \<Rightarrow> appContextMap option \<Rightarrow> termCodecMap option \<Rightarrow> error + jsval"
  and generateElements ::
    "jsval \<Rightarrow> jsval list \<Rightarrow> appContextMap option \<Rightarrow> termCodecMap option \<Rightarrow> error + jsval list"
where
  "generateDecodingMap cborMap appContextMap appTermMap termCodecMap =
     (case codecEntry appTermMap termCodecMap of
        Inl e \<Rightarrow> Inl e
      | Inr decodingMap \<Rightarrow>
          (case entries cborMap of
             Inl e \<Rightarrow> Inl e
           | Inr kvs \<Rightarrow>
               (case generateEntries kvs appContextMap termCodecMap decodingMap of
                  Inl e \<Rightarrow> Inl e
                | Inr dm \<Rightarrow> Inr (JMap dm))))"
| "generateEntries [] appContextMap termCodecMap decodingMap = Inr decodingMap"
| "generateEntries ((key, v) # rest) appContextMap termCodecMap decodingMap =
     (case resolveTerm termCodecMap key of
        Inl e \<Rightarrow> Inl e
      | Inr term \<Rightarrow>
          (case generateValue key v appContextMap termCodecMap of
             Inl e \<Rightarrow> Inl e
           | Inr decodedValue \<Rightarrow>
               generateEntries rest appContextMap termCodecMap
                 (map_set decodingMap term decodedValue)))"
| "generateValue key v appContextMap termCodecMap =
     (case v of
        JMap m \<Rightarrow> generateDecodingMap v appContextMap None termCodecMap
      | JArr elements \<Rightarrow>
          (case generateElements key elements appContextMap termCodecMap of
             Inl e \<Rightarrow> Inl e
           | Inr decodedValue \<Rightarrow> Inr (JArr decodedValue))
      | _ \<Rightarrow> loadCodec termCodecMap appContextMap key v)"
| "generateElements key [] appContextMap termCodecMap = Inr []"
| "generateElements key (element # rest) appContextMap termCodecMap =
     (case isPlainObject element of
        Inl e \<Rightarrow> Inl e
      | Inr plain \<Rightarrow>
          (case (if plain then generateDecodingMap element appContextMap None termCodecMap
                 else loadCodec termCodecMap appContextMap key element) of
             Inl e \<Rightarrow> Inl e
           | Inr decodedSubvalue \<Rightarrow>
               (case generateElements key rest appContextMap termCodecMap of
                  Inl e \<Rightarrow> Inl e
                | Inr decodedValue \<Rightarrow> Inr (decodedSubvalue # decodedValue))))"
  by pat_completeness auto

termination generateDecodingMap
  by (relation "measure (\<lambda>x. case x of
         Inl (Inl (v, _)) \<Rightarrow> measureValue v
       | Inl (Inr (kvs, _)) \<Rightarrow> measureEntries kvs
       | Inr (Inl (_, v, _)) \<Rightarrow> measureStep v
       | Inr (Inr (_, xs, _)) \<Rightarrow> measureElements xs)")
     (simp_all add: measure_entries measure_entry_value measure_map_value measure_array_value
        measure_rest_entries measure_plain_element measure_rest_elements)

section \<open>The Tree Realizer: \<^verbatim>\<open>_decodeMap\<close>\<close>

text \<open>
  What the decoder takes from its surroundings. Modelled from the spec: the codecs
  (\<^verbatim>\<open>./codecs/*\<close>), \<^verbatim>\<open>getCborldContextUrls\<close> (\<^verbatim>\<open>./context\<close>) and
  \<^verbatim>\<open>getTermCodecMap\<close> (\<^verbatim>\<open>./codec\<close>) are not part of the sources, and
  \<^verbatim>\<open>cbor.decode\<close> is a library; each is a parameter here. \<^verbatim>\<open>decodeCBOR c v acm tcm\<close>
  is the method \<^verbatim>\<open>decodeCBOR()\<close> of a codec instance, \<^verbatim>\<open>getTermCodecMap\<close> returns
  its result together with the URLs it asked the document loader for, and
  \<^verbatim>\<open>toPropertyKey\<close> is the conversion of a key that is not a string to a property
  name.
\<close>

record host =
  cbor_decode :: "8 word list \<Rightarrow> error + jsval"
  getCborldContextUrls :: "jsval \<Rightarrow> appContextMap option \<Rightarrow> error + string list"
  getTermCodecMap ::
    "string list \<Rightarrow> appTermMap option \<Rightarrow> (string \<Rightarrow> error + jsval) \<Rightarrow>
       (error + termCodecMap option) \<times> string list"
  decodeCBOR ::
    "codec_class \<Rightarrow> jsval loaded \<Rightarrow> appContextMap option \<Rightarrow> termCodecMap option \<Rightarrow>
       error + jsval"
  toPropertyKey :: "jsval \<Rightarrow> string"

text \<open>\<^verbatim>\<open>jsonldDocument[key]\<close>: the property named by the key.\<close>

definition propertyKey :: "host \<Rightarrow> jsval \<Rightarrow> string" where
  "propertyKey h key = (case key of JStr s \<Rightarrow> s | _ \<Rightarrow> toPropertyKey h key)"

text \<open>Truthiness, and \<^verbatim>\<open>typeof value === 'function'\<close>: no value here is a function.\<close>

fun truthy :: "jsval \<Rightarrow> bool" where
  "truthy (JBool b) = b"
| "truthy (JNum i) = (i \<noteq> 0)"
| "truthy (JStr s) = (s \<noteq> [])"
| "truthy JNull = False"
| "truthy JUndefined = False"
| "truthy v = True"

definition isFunction :: "jsval \<Rightarrow> bool" where
  "isFunction v = False"

text \<open>
  \<^verbatim>\<open>value.decodeCBOR()\<close>: the method of a codec instance; on anything else the call
  is a call of something that is not a function.
\<close>

fun callDecodeCBOR :: "host \<Rightarrow> jsval \<Rightarrow> error + jsval" where
  "callDecodeCBOR h (JCodec c v acm tcm) = decodeCBOR h c v acm tcm"
| "callDecodeCBOR h v = Inl TypeError"

text \<open>
  The test \<^verbatim>\<open>value.decodeCBOR\<close> of line 147: the read throws on null and
  undefined; a codec instance has the method; a plain object has the property only
  as data, its own or that of a plain object on its prototype chain; every other
  value has none.
\<close>

function exposesDecodeCBOR :: "jsval \<Rightarrow> bool" where
  "exposesDecodeCBOR (JCodec c l acm tcm) = True"
| "exposesDecodeCBOR (JObj kvs) =
     (case map_of kvs ''decodeCBOR'' of
        Some f \<Rightarrow> truthy f
      | None \<Rightarrow>
          (case map_of kvs ''__proto__'' of
             None \<Rightarrow> False
           | Some p \<Rightarrow> (case p of JObj q \<Rightarrow> exposesDecodeCBOR p | _ \<Rightarrow> False)))"
| "exposesDecodeCBOR (JNum i) = False"
| "exposesDecodeCBOR (JStr s) = False"
| "exposesDecodeCBOR (JBool b) = False"
| "exposesDecodeCBOR JNull = False"
| "exposesDecodeCBOR JUndefined = False"
| "exposesDecodeCBOR (JBytes bs) = False"
| "exposesDecodeCBOR (JArr xs) = False"
| "exposesDecodeCBOR (JMap kvs) = False"
| "exposesDecodeCBOR (JTagged t v) = False"
  by pat_completeness auto

termination exposesDecodeCBOR
  by (relation "measure size") (auto simp: size_map_of simp del: jsval.size)

fun hasDecodeCBOR :: "jsval \<Rightarrow> error + bool" where
  "hasDecodeCBOR JNull = Inl TypeError"
| "hasDecodeCBOR JUndefined = Inl TypeError"
| "hasDecodeCBOR v = Inr (exposesDecodeCBOR v)"

text \<open>Lines 147--154, for a value that is neither a \<^verbatim>\<open>Map\<close> nor an array.\<close>

definition decodeLeaf :: "host \<Rightarrow> jsval \<Rightarrow> jsval \<Rightarrow> error + jsval" where
  "decodeLeaf h key v =
     (case hasDecodeCBOR v of
        Inl e \<Rightarrow> Inl e
      | Inr exposed \<Rightarrow>
          (if exposed then callDecodeCBOR h v
           else Inl (CborldError ''ERR_UNKNOWN_CBORLD_ENCODING'' (UnknownEncoding key v))))"

text \<open>
  \<^verbatim>\<open>_decodeMap\<close> may call itself without end, so it takes the number of nested
  activations the call stack still has room for; with none left the engine raises a
  \<^verbatim>\<open>RangeError\<close>. \<^verbatim>\<open>decodeEntries\<close> is the loop of lines 130--157 and
  \<^verbatim>\<open>decodeElements\<close> the \<^verbatim>\<open>forEach\<close> of lines 137--146, both with the document
  built so far.
\<close>

function decodeMap :: "host \<Rightarrow> nat \<Rightarrow> jsval \<Rightarrow> error + jsval"
  and decodeEntries ::
    "host \<Rightarrow> nat \<Rightarrow> jsval \<Rightarrow> (jsval \<times> jsval) list \<Rightarrow> (string \<times> jsval) list \<Rightarrow>
       error + (string \<times> jsval) list"
  and decodeElements ::
    "host \<Rightarrow> nat \<Rightarrow> jsval \<Rightarrow> jsval \<Rightarrow> jsval \<Rightarrow> jsval list \<Rightarrow> (string \<times> jsval) list \<Rightarrow>
       error + (string \<times> jsval) list"
where
  "decodeMap h 0 decodingMap = Inl RangeError"
| "decodeMap h (Suc depth) decodingMap =
     (case entries decodingMap of
        Inl e \<Rightarrow> Inl e
      | Inr kvs \<Rightarrow>
          (case decodeEntries h depth decodingMap kvs [] of
             Inl e \<Rightarrow> Inl e
           | Inr jsonldDocument \<Rightarrow> Inr (JObj jsonldDocument)))"
| "decodeEntries h depth decodingMap [] jsonldDocument = Inr jsonldDocument"
| "decodeEntries h depth decodingMap ((key, v) # rest) jsonldDocument =
     (case v of
        JMap m \<Rightarrow>
          (case decodeMap h depth decodingMap of
             Inl e \<Rightarrow> Inl e
           | Inr decodedValue \<Rightarrow>
               decodeEntries h depth decodingMap rest
                 (map_set jsonldDocument (propertyKey h key) decodedValue))
      | JArr elements \<Rightarrow>
          (case decodeElements h depth decodingMap key v elements jsonldDocument of
             Inl e \<Rightarrow> Inl e
           | Inr doc \<Rightarrow>
               decodeEntries h depth decodingMap rest (map_set doc (propertyKey h key) (JArr [])))
      | _ \<Rightarrow>
          (case decodeLeaf h key v of
             Inl e \<Rightarrow> Inl e
           | Inr decodedValue \<Rightarrow>
               decodeEntries h depth decodingMap rest
                 (map_set jsonldDocument (propertyKey h key) decodedValue)))"
| "decodeElements h depth decodingMap key v [] jsonldDocument = Inr jsonldDocument"
| "decodeElements h depth decodingMap key v (element # rest) jsonldDocument =
     (case (if isMap v then decodeMap h depth decodingMap
            else if isFunction v then callDecodeCBOR h v
            else Inr element) of
        Inl e \<Rightarrow> Inl e
      | Inr decodedSubvalue \<Rightarrow>
          decodeElements h depth decodingMap key v rest
            (map_set jsonldDocument (propertyKey h key) decodedSubvalue))"
  by pat_completeness auto

termination decodeMap
  by (relation "measures [
         (\<lambda>x. case x of Inl (_, n, _) \<Rightarrow> 2 * n
            | Inr (Inl (_, n, _)) \<Rightarrow> 2 * n + 1
            | Inr (Inr (_, n, _)) \<Rightarrow> 2 * n + 1),
         (\<lambda>x. case x of Inl _ \<Rightarrow> 0
            | Inr (Inl _) \<Rightarrow> 1
            | Inr (Inr _) \<Rightarrow> 0),
         (\<lambda>x. case x of Inl _ \<Rightarrow> 0
            | Inr (Inl (_, _, _, kvs, _)) \<Rightarrow> length kvs
            | Inr (Inr (_, _, _, _, _, xs, _)) \<Rightarrow> length xs)]")
     simp_all

section \<open>The Header Dispatcher: \<^verbatim>\<open>fromCborld\<close>\<close>

text \<open>
  The reads \<^verbatim>\<open>cborMap.tag\<close> and \<^verbatim>\<open>cborMap.value\<close> of lines 42--46 are plain
  property reads, they do not ask whether the value is a \<^verbatim>\<open>Tagged\<close>.
  \<^verbatim>\<open>readData name v\<close> is the read of the property \<^verbatim>\<open>name\<close> (one of \<^verbatim>\<open>tag\<close>,
  \<^verbatim>\<open>value\<close>) on a value that is not null or undefined: a \<^verbatim>\<open>Tagged\<close> has both
  properties; a plain object has them as own properties or through its prototype
  chain; every other value gives undefined.
\<close>

function readData :: "string \<Rightarrow> jsval \<Rightarrow> jsval" where
  "readData name (JTagged t v) =
     (if name = ''tag'' then JNum (int t) else if name = ''value'' then v else JUndefined)"
| "readData name (JObj kvs) =
     (case map_of kvs name of
        Some x \<Rightarrow> x
      | None \<Rightarrow>
          (case map_of kvs ''__proto__'' of
             None \<Rightarrow> JUndefined
           | Some p \<Rightarrow> readData name p))"
| "readData name (JNum i) = JUndefined"
| "readData name (JStr s) = JUndefined"
| "readData name (JBool b) = JUndefined"
| "readData name JNull = JUndefined"
| "readData name JUndefined = JUndefined"
| "readData name (JBytes bs) = JUndefined"
| "readData name (JArr xs) = JUndefined"
| "readData name (JMap kvs) = JUndefined"
| "readData name (JCodec c l acm tcm) = JUndefined"
  by pat_completeness auto

termination readData
  by (relation "measure (\<lambda>(name, v). size v)") (auto simp: size_map_of simp del: jsval.size)

text \<open>
  \<^verbatim>\<open>cborMap.tag\<close>: null and undefined have no properties at all, the read throws.
  \<^verbatim>\<open>cborMap.value\<close> is read only after that read has succeeded.
\<close>

fun tagOf :: "jsval \<Rightarrow> error + jsval" where
  "tagOf JNull = Inl TypeError"
| "tagOf JUndefined = Inl TypeError"
| "tagOf v = Inr (readData ''tag'' v)"

fun valueOf :: "jsval \<Rightarrow> jsval" where
  "valueOf v = readData ''value'' v"

text \<open>
  What a call of \<^verbatim>\<open>fromCborld\<close> does besides returning or throwing: the stages
  it entered, the URLs asked of the document loader, and what it passed to the
  \<^verbatim>\<open>diagnose\<close> callback (\<^verbatim>\<open>Inspected v\<close> is \<^verbatim>\<open>util.inspect(v, ...)\<close>).
\<close>

datatype stage = ResolveContexts | ResolveTerms | BuildTree | RealizeTree

datatype diagnostic = Message string | Inspected jsval | Document jsval

record outcome =
  returned :: "error + jsval"
  stages :: "stage list"
  loaderCalls :: "string list"
  diagnostics :: "diagnostic list"

text \<open>
  Lines 59--66: the diagnostics, when a callback is given, and the return.
  Modelled from the spec: the callback is the caller's; as a purely observational
  sink it returns normally, so it is a flag and a record of what it was passed.
\<close>

definition finish ::
  "bool \<Rightarrow> jsval \<Rightarrow> jsval \<Rightarrow> stage list \<Rightarrow> string list \<Rightarrow> outcome" where
  "finish diagnose cborMap jsonldDocument sts calls =
     \<lparr>returned = Inr jsonldDocument, stages = sts, loaderCalls = calls,
      diagnostics =
        (if diagnose then
           [Message ''Diagnostic CBOR Object:'', Inspected cborMap,
            Message ''Diagnostic JSON-LD Object:'', Document jsonldDocument]
         else [])\<rparr>"

definition throw :: "error \<Rightarrow> stage list \<Rightarrow> string list \<Rightarrow> outcome" where
  "throw e sts calls =
     \<lparr>returned = Inl e, stages = sts, loaderCalls = calls, diagnostics = []\<rparr>"

text \<open>
  \<^verbatim>\<open>fromCborld\<close>, lines 37--67. \<^verbatim>\<open>stack\<close> is the room on the call stack when
  \<^verbatim>\<open>_decodeMap\<close> is entered, \<^verbatim>\<open>diagnose\<close> says whether a callback was given.
\<close>

definition fromCborld ::
  "host \<Rightarrow> nat \<Rightarrow> 8 word list \<Rightarrow> appContextMap option \<Rightarrow> appTermMap option \<Rightarrow>
     (string \<Rightarrow> error + jsval) \<Rightarrow> bool \<Rightarrow> outcome" where
  "fromCborld h stack cborldBytes appContextMap appTermMap documentLoader diagnose =
     (case cbor_decode h cborldBytes of
        Inl e \<Rightarrow> throw e [] []
      | Inr cborMap \<Rightarrow>
          (case tagOf cborMap of
             Inl e \<Rightarrow> throw e [] []
           | Inr tag \<Rightarrow>
               if tag = JNum 0x0500 then finish diagnose cborMap (valueOf cborMap) [] []
               else if tag = JNum 0x0501 then
                 (case getCborldContextUrls h (valueOf cborMap) appContextMap of
                    Inl e \<Rightarrow> throw e [ResolveContexts] []
                  | Inr contextUrls \<Rightarrow>
                      (case getTermCodecMap h contextUrls appTermMap documentLoader of
                         (Inl e, calls) \<Rightarrow> throw e [ResolveContexts, ResolveTerms] calls
                       | (Inr termCodecMap, calls) \<Rightarrow>
                           (case generateDecodingMap (valueOf cborMap) appContextMap appTermMap
                                   termCodecMap of
                              Inl e \<Rightarrow> throw e [ResolveContexts, ResolveTerms, BuildTree] calls
                            | Inr decodingMap \<Rightarrow>
                                (case decodeMap h stack decodingMap of
                                   Inl e \<Rightarrow>
                                     throw e
                                       [ResolveContexts, ResolveTerms, BuildTree, RealizeTree] calls
                                 | Inr jsonldDocument \<Rightarrow>
                                     finish diagnose cborMap jsonldDocument
                                       [ResolveContexts, ResolveTerms, BuildTree, RealizeTree]
                                       calls))))
               else
                 throw (CborldError ''ERR_NOT_CBORLD''
                          (Text ''Input is not valid CBOR-LD; missing CBOR-LD header (0x0500 or 0x501).''))
                   [] []))"

section \<open>Notions used in the statements\<close>

text \<open>
  \<^verbatim>\<open>unknownKeyWalked tcm v\<close>: a map that the builder walks has a key with no entry
  in the Term Codec Map. The builder walks \<^verbatim>\<open>v\<close> itself when it is a \<^verbatim>\<open>Map\<close> and the
  \<^verbatim>\<open>Map\<close>s that are values of a walked map (lines 96--98), and no others: a \<^verbatim>\<open>Map\<close>
  that is an element of an array is not walked (see C4).
\<close>

fun unknownKeyWalked :: "termCodecMap \<Rightarrow> jsval \<Rightarrow> bool" where
  "unknownKeyWalked tcm (JMap kvs) =
     list_ex (\<lambda>(k, v). tcm_get tcm k = None \<or> unknownKeyWalked tcm v) kvs"
| "unknownKeyWalked tcm v = False"

text \<open>
  \<^verbatim>\<open>synthesized v\<close>: somewhere in \<^verbatim>\<open>v\<close> there is a codec instance that wraps an
  application term map. Line 78 is the only place that makes one, and a decoded
  CBOR value holds none.
\<close>

fun synthesized :: "jsval \<Rightarrow> bool" where
  "synthesized (JCodec c (TermMap atm) acm tcm) = True"
| "synthesized (JCodec c (Value v) acm tcm) = synthesized v"
| "synthesized (JArr xs) = list_ex synthesized xs"
| "synthesized (JMap kvs) = list_ex (\<lambda>(k, v). synthesized k \<or> synthesized v) kvs"
| "synthesized (JObj kvs) = list_ex (\<lambda>(k, v). synthesized v) kvs"
| "synthesized (JTagged t v) = synthesized v"
| "synthesized v = False"

definition synthesizedEntry :: "jsval \<times> jsval \<Rightarrow> bool" where
  "synthesizedEntry p = (synthesized (fst p) \<or> synthesized (snd p))"

text \<open>
  Concrete inputs for the examples: a Term Codec Map with the reserved
  \<^verbatim>\<open>'@codec'\<close> key, two terms and an id that resolves to \<^verbatim>\<open>@codec\<close> as well; an
  application term map; and surroundings whose \<^verbatim>\<open>cbor.decode\<close> knows the encodings
  of \<^verbatim>\<open>1280({"name": "Alice"})\<close>, \<^verbatim>\<open>1281(Map{1: "Alice"})\<close> and \<^verbatim>\<open>1282({})\<close>.
\<close>

definition exampleTcm :: termCodecMap where
  "exampleTcm =
     [(TName ''@codec'', Entry ''@codec'' CodecMapCodec),
      (TId 1, Entry ''name'' SimpleTypeCodec),
      (TId 2, Entry ''knows'' UrlCodec),
      (TId 3, Entry ''@codec'' CodecMapCodec)]"

definition exampleAtm :: appTermMap where
  "exampleAtm = [(''amount'', AppCodec ''AmountCodec'')]"

definition exampleHost :: host where
  "exampleHost =
     \<lparr>cbor_decode = (\<lambda>bs.
        if bs = [0xD9, 0x05, 0x00, 0xA1, 0x64, 0x6E, 0x61, 0x6D, 0x65,
                 0x65, 0x41, 0x6C, 0x69, 0x63, 0x65]
        then Inr (JTagged 0x0500 (JObj [(''name'', JStr ''Alice'')]))
        else if bs = [0xD9, 0x05, 0x01, 0xA1, 0x01, 0x65, 0x41, 0x6C, 0x69, 0x63, 0x65]
        then Inr (JTagged 0x0501 (JMap [(JNum 1, JStr ''Alice'')]))
        else if bs = [0xD9, 0x05, 0x02, 0xA0] then Inr (JTagged 0x0502 (JObj []))
        else Inl (Thrown ''cbor.decode'')),
      getCborldContextUrls = (\<lambda>cborMap acm. Inr []),
      getTermCodecMap = (\<lambda>urls atm loader. (Inr (Some exampleTcm), urls)),
      decodeCBOR = (\<lambda>c v acm tcm. case v of Value x \<Rightarrow> Inr x | TermMap m \<Rightarrow> Inr JNull),
      toPropertyKey = (\<lambda>key. ''key'')\<rparr>"

text \<open>The same surroundings with one more byte string that \<^verbatim>\<open>cbor.decode\<close> knows.\<close>

definition hostDecoding :: "8 word list \<Rightarrow> jsval \<Rightarrow> host" where
  "hostDecoding bs v =
     exampleHost\<lparr>cbor_decode := (\<lambda>x. if x = bs then Inr v else cbor_decode exampleHost x)\<rparr>"

section \<open>Properties of the Decoding Tree Builder\<close>

subsection \<open>The loop over the entries\<close>

lemma generateEntries_append:
  "generateEntries (xs @ ys) acm tcm dm =
     (case generateEntries xs acm tcm dm of
        Inl e \<Rightarrow> Inl e
      | Inr dm' \<Rightarrow> generateEntries ys acm tcm dm')"
  by (induction xs arbitrary: dm) (auto split: sum.splits)

lemma generateEntries_unknown:
  "tcm_get tcm key = None \<Longrightarrow>
   generateEntries ((key, v) # rest) acm (Some tcm) dm =
     Inl (CborldError ''ERR_UNKNOWN_CBORLD_TERM'' (UnknownTerm key))"
  by (simp add: resolveTerm_def)



lemma set_map_set: "set (map_set dm k v) \<subseteq> insert (k, v) (set dm)"
  by (induction dm) (auto split: if_splits)



subsection \<open>Unknown keys never pass\<close>

lemma unknown_fail_closed:
  "unknownKeyWalked tcm cborMap \<Longrightarrow> isl (generateDecodingMap cborMap acm atm (Some tcm))"
  "list_ex (\<lambda>(k, v). tcm_get tcm k = None \<or> unknownKeyWalked tcm v) kvs
      \<Longrightarrow> isl (generateEntries kvs acm (Some tcm) dm)"
  "unknownKeyWalked tcm v \<Longrightarrow> isl (generateValue key v acm (Some tcm))"
  "generateElements key xs acm (Some tcm) = generateElements key xs acm (Some tcm)"
proof (induction cborMap acm atm "Some tcm" and kvs acm "Some tcm" dm and key v acm "Some tcm"
       and key xs acm "Some tcm"
       rule: generateDecodingMap_generateEntries_generateValue_generateElements.induct)
  case (1 cborMap appContextMap appTermMap)
  from "1.prems" obtain kvs where m: "cborMap = JMap kvs"
    by (cases cborMap) auto
  show ?case
  proof (cases "codecEntry appTermMap (Some tcm)")
    case (Inl e)
    then show ?thesis by simp
  next
    case (Inr dm0)
    have "isl (generateEntries kvs appContextMap (Some tcm) dm0)"
      using "1.hyps" [OF Inr, of kvs] "1.prems" m by simp
    then show ?thesis
      using Inr m by (auto split: sum.splits)
  qed
next
  case (2 appContextMap decodingMap)
  then show ?case by simp
next
  case (3 key v rest appContextMap decodingMap)
  show ?case
  proof (cases "tcm_get tcm key")
    case None
    then show ?thesis by (simp add: resolveTerm_def)
  next
    case (Some e)
    then have r: "resolveTerm (Some tcm) key = Inr (JStr (entry_term e))"
      by (simp add: resolveTerm_def)
    show ?thesis
    proof (cases "generateValue key v appContextMap (Some tcm)")
      case (Inl err)
      then show ?thesis using r by simp
    next
      case (Inr dv)
      have "\<not> unknownKeyWalked tcm v"
        using "3.hyps"(1) [OF r] Inr by auto
      then have "list_ex (\<lambda>(k, v). tcm_get tcm k = None \<or> unknownKeyWalked tcm v) rest"
        using "3.prems" Some by simp
      then show ?thesis
        using "3.hyps"(2) [OF r Inr] r Inr by simp
    qed
  qed
next
  case (4 key v appContextMap)
  from "4.prems" obtain kvs where m: "v = JMap kvs"
    by (cases v) auto
  then show ?case
    using "4.hyps"(2) [OF m] "4.prems" by simp
qed simp_all

subsection \<open>Where a codec for the application term map can be\<close>

lemma synthesizedEntry_pair: "synthesizedEntry (k, v) = (synthesized k \<or> synthesized v)"
  by (simp add: synthesizedEntry_def)

lemma synthesized_JMap: "synthesized (JMap kvs) = list_ex synthesizedEntry kvs"
proof -
  have "synthesizedEntry = (\<lambda>(k, v). synthesized k \<or> synthesized v)"
    by (auto simp: synthesizedEntry_def fun_eq_iff)
  then show ?thesis by simp
qed

lemma synthesized_bytes: "\<not> list_ex synthesized (map (\<lambda>b. JNum (uint b)) bs)"
  by (induction bs) auto

lemma synthesized_indexed: "list_ex synthesizedEntry (indexed i xs) = list_ex synthesized xs"
  by (induction xs arbitrary: i) (auto simp: synthesizedEntry_pair)

lemma synthesized_entries:
  "entries v = Inr kvs \<Longrightarrow> \<not> synthesized v \<Longrightarrow> \<not> list_ex synthesizedEntry kvs"
  by (cases v)
    (auto simp: synthesized_JMap synthesized_indexed synthesized_bytes
          simp del: synthesized.simps(4))

lemma synthesized_loadCodec:
  "loadCodec tcm acm key v = Inr d \<Longrightarrow> \<not> synthesized v \<Longrightarrow> \<not> synthesized d"
  by (auto simp: loadCodec_def split: option.splits)

lemma synthesized_resolveTerm:
  "resolveTerm tcm key = Inr t \<Longrightarrow> \<not> synthesized key \<Longrightarrow> \<not> synthesized t"
  by (auto simp: resolveTerm_def split: option.splits)

lemma synthesized_map_set:
  "\<not> list_ex synthesizedEntry dm \<Longrightarrow> \<not> synthesized k \<Longrightarrow> \<not> synthesized v \<Longrightarrow>
   \<not> list_ex synthesizedEntry (map_set dm k v)"
  using set_map_set [of dm k v] by (auto simp: list_ex_iff synthesizedEntry_def)

lemma nothing_synthesized:
  "atm = None \<Longrightarrow> \<not> synthesized cborMap \<Longrightarrow>
     generateDecodingMap cborMap acm atm tcm = Inr d \<Longrightarrow> \<not> synthesized d"
  "\<not> list_ex synthesizedEntry kvs \<Longrightarrow> \<not> list_ex synthesizedEntry dm \<Longrightarrow>
     generateEntries kvs acm tcm dm = Inr r \<Longrightarrow> \<not> list_ex synthesizedEntry r"
  "\<not> synthesized v \<Longrightarrow> generateValue key v acm tcm = Inr d \<Longrightarrow> \<not> synthesized d"
  "\<not> list_ex synthesized xs \<Longrightarrow> generateElements key xs acm tcm = Inr ds \<Longrightarrow>
     \<not> list_ex synthesized ds"
proof (induction cborMap acm atm tcm and kvs acm tcm dm and key v acm tcm and key xs acm tcm
       arbitrary: d and r and d and ds
       rule: generateDecodingMap_generateEntries_generateValue_generateElements.induct)
  case (1 cborMap appContextMap appTermMap termCodecMap)
  have c: "codecEntry appTermMap termCodecMap = Inr []"
    using "1.prems"(1) by (simp add: codecEntry_def)
  from "1.prems"(3) c obtain kvs dm where
    e: "entries cborMap = Inr kvs" and
    g: "generateEntries kvs appContextMap termCodecMap [] = Inr dm" and
    d: "d = JMap dm"
    by (auto split: sum.splits)
  have "\<not> list_ex synthesizedEntry dm"
    using "1.IH" [OF c e _ _ g] synthesized_entries [OF e "1.prems"(2)] by simp
  then show ?case
    using d by (simp add: synthesized_JMap del: synthesized.simps(4))
next
  case (2 appContextMap termCodecMap decodingMap)
  then show ?case by simp
next
  case (3 key v rest appContextMap termCodecMap decodingMap)
  from "3.prems"(3) obtain t dv where
    r: "resolveTerm termCodecMap key = Inr t" and
    g: "generateValue key v appContextMap termCodecMap = Inr dv" and
    n: "generateEntries rest appContextMap termCodecMap (map_set decodingMap t dv) = Inr r"
    by (auto split: sum.splits)
  have k: "\<not> synthesized key" and v: "\<not> synthesized v" and
    rest: "\<not> list_ex synthesizedEntry rest"
    using "3.prems"(1) by (auto simp: synthesizedEntry_pair)
  have "\<not> synthesized t"
    using synthesized_resolveTerm [OF r k] .
  moreover have "\<not> synthesized dv"
    using "3.IH"(1) [OF r v g] .
  ultimately have "\<not> list_ex synthesizedEntry (map_set decodingMap t dv)"
    using "3.prems"(2) by (simp add: synthesized_map_set)
  then show ?case
    using "3.IH"(2) [OF r g rest _ n] by simp
next
  case (4 key v appContextMap termCodecMap)
  show ?case
  proof (cases v)
    case (JMap m)
    then show ?thesis
      using "4.IH"(2) [OF JMap _ "4.prems"(1)] "4.prems"(2) by simp
  next
    case (JArr xs)
    then obtain ds where
      g: "generateElements key xs appContextMap termCodecMap = Inr ds" and d: "d = JArr ds"
      using "4.prems"(2) by (auto split: sum.splits)
    then show ?thesis
      using "4.IH"(1) [OF JArr _ g] "4.prems"(1) JArr by simp
  qed (use "4.prems" in \<open>auto dest: synthesized_loadCodec\<close>)
next
  case (5 key appContextMap termCodecMap)
  then show ?case by simp
next
  case (6 key element rest appContextMap termCodecMap)
  from "6.prems"(2) obtain plain sub subs where
    p: "isPlainObject element = Inr plain" and
    s: "(if plain then generateDecodingMap element appContextMap None termCodecMap
         else loadCodec termCodecMap appContextMap key element) = Inr sub" and
    g: "generateElements key rest appContextMap termCodecMap = Inr subs" and
    ds: "ds = sub # subs"
    by (auto split: sum.splits)
  have el: "\<not> synthesized element" and rest: "\<not> list_ex synthesized rest"
    using "6.prems"(1) by auto
  have "\<not> synthesized sub"
  proof (cases plain)
    case True
    then show ?thesis
      using "6.IH"(1) [OF p True _ el] s by simp
  next
    case False
    then show ?thesis
      using s el by (auto dest: synthesized_loadCodec)
  qed
  moreover have "\<not> list_ex synthesized subs"
    using "6.IH"(2) [OF p s rest g] .
  ultimately show ?case
    using ds by simp
qed

lemma generateEntries_values:
  "generateEntries kvs acm tcm dm = Inr r \<Longrightarrow> \<not> list_ex synthesizedEntry kvs \<Longrightarrow>
   (t, v) \<in> set r \<Longrightarrow> (t, v) \<in> set dm \<or> \<not> synthesized v"
proof (induction kvs arbitrary: dm)
  case Nil
  then show ?case by simp
next
  case (Cons p kvs)
  obtain k x where p: "p = (k, x)" by (cases p)
  from Cons.prems(1) p obtain tm dv where
    g: "generateValue k x acm tcm = Inr dv" and
    n: "generateEntries kvs acm tcm (map_set dm tm dv) = Inr r"
    by (auto split: sum.splits)
  have x: "\<not> synthesized x" and rest: "\<not> list_ex synthesizedEntry kvs"
    using Cons.prems(2) p by (auto simp: synthesizedEntry_pair)
  have dv: "\<not> synthesized dv"
    using nothing_synthesized(3) [OF x g] .
  from Cons.IH [OF n rest Cons.prems(3)]
  show ?case
  proof
    assume "(t, v) \<in> set (map_set dm tm dv)"
    then have "(t, v) = (tm, dv) \<or> (t, v) \<in> set dm"
      using set_map_set [of dm tm dv] by auto
    then show ?thesis using dv by auto
  next
    assume "\<not> synthesized v"
    then show ?thesis by simp
  qed
qed

lemma codecEntry_values:
  "codecEntry atm tcm = Inr dm0 \<Longrightarrow> (t, v) \<in> set dm0 \<Longrightarrow> \<not> isMap v \<and> \<not> isArray v"
  by (auto simp: codecEntry_def split: option.splits if_splits)

subsection \<open>Arrays of arrays\<close>

text \<open>
  C3. The claim: in \<^verbatim>\<open>_generateDecodingMap\<close>, an element of an array value that is
  itself an array makes decoding fail with an Unsupported-shape error. The code has
  no such error. What it does: the test of line 104 is false for an array, so with
  a Term Codec Map the inner array is loaded whole, like a scalar element, into a
  fresh instance of the codec registered for the key, and without one it is kept as
  it is; the builder goes on with the next element.
\<close>

theorem nested_array_loaded_whole:
  "(tcm_get tcm key = Some e \<longrightarrow>
      generateElements key (JArr inner # rest) acm (Some tcm) =
        (case generateElements key rest acm (Some tcm) of
           Inl err \<Rightarrow> Inl err
         | Inr subs \<Rightarrow>
             Inr (JCodec (entry_codec e) (Value (JArr inner)) acm (Some tcm) # subs)))
   \<and> generateElements key (JArr inner # rest) acm None =
        (case generateElements key rest acm None of
           Inl err \<Rightarrow> Inl err
         | Inr subs \<Rightarrow> Inr (JArr inner # subs))"
  by (simp add: loadCodec_def)

text \<open>
  The statement at a concrete input: the elements \<^verbatim>\<open>[[7], "x"]\<close> under key 1.
\<close>

theorem nested_array_loaded_whole_witness:
  "tcm_get exampleTcm (JNum 1) = Some (Entry ''name'' SimpleTypeCodec)
   \<and> generateElements (JNum 1) [JArr [JNum 7], JStr ''x''] None (Some exampleTcm) =
       Inr [JCodec SimpleTypeCodec (Value (JArr [JNum 7])) None (Some exampleTcm),
            JCodec SimpleTypeCodec (Value (JStr ''x'')) None (Some exampleTcm)]
   \<and> generateElements (JNum 1) [JArr [JNum 7], JStr ''x''] None None =
       Inr [JArr [JNum 7], JStr ''x'']"
  using nested_array_loaded_whole
    [of exampleTcm "JNum 1" "Entry ''name'' SimpleTypeCodec" "[JNum 7]" "[JStr ''x'']" None]
  by (simp add: exampleTcm_def loadCodec_def)

text \<open>
  The builder returns a Decoding Map for the binary map \<^verbatim>\<open>{1: [[7, 8]]}\<close>: no error
  is raised for the array inside the array.
\<close>

theorem nested_array_counterexample:
  "generateDecodingMap (JMap [(JNum 1, JArr [JArr [JNum 7, JNum 8]])]) None None (Some exampleTcm)
   = Inr (JMap [(JStr ''name'',
                 JArr [JCodec SimpleTypeCodec (Value (JArr [JNum 7, JNum 8])) None
                         (Some exampleTcm)])])"
  by (simp add: exampleTcm_def codecEntry_def resolveTerm_def loadCodec_def)

subsection \<open>Unknown terms\<close>

text \<open>
  Where the builder walks a map, the check of lines 84--88 holds: the call on a map
  in which a key without entry stands throws \<^verbatim>\<open>ERR_UNKNOWN_CBORLD_TERM\<close> for that key
  as soon as the entries before it have been built (the first failure is the one
  thrown), and a walked map with such a key, at any depth, never yields a Decoding
  Map.
\<close>

lemma unknown_term_walked:
  "(tcm_get tcm key = None \<longrightarrow>
      generateDecodingMap (JMap (before @ (key, v) # after)) acm atm (Some tcm) =
        (case codecEntry atm (Some tcm) of
           Inl e \<Rightarrow> Inl e
         | Inr dm0 \<Rightarrow>
             (case generateEntries before acm (Some tcm) dm0 of
                Inl e \<Rightarrow> Inl e
              | Inr dm \<Rightarrow> Inl (CborldError ''ERR_UNKNOWN_CBORLD_TERM'' (UnknownTerm key)))))
   \<and> (unknownKeyWalked tcm cborMap \<longrightarrow> isl (generateDecodingMap cborMap acm atm (Some tcm)))"
proof (intro conjI impI)
  assume n: "tcm_get tcm key = None"
  show "generateDecodingMap (JMap (before @ (key, v) # after)) acm atm (Some tcm) =
        (case codecEntry atm (Some tcm) of
           Inl e \<Rightarrow> Inl e
         | Inr dm0 \<Rightarrow>
             (case generateEntries before acm (Some tcm) dm0 of
                Inl e \<Rightarrow> Inl e
              | Inr dm \<Rightarrow> Inl (CborldError ''ERR_UNKNOWN_CBORLD_TERM'' (UnknownTerm key))))"
    by (simp add: generateEntries_append generateEntries_unknown [OF n]
          del: generateEntries.simps split: sum.splits)
next
  assume "unknownKeyWalked tcm cborMap"
  then show "isl (generateDecodingMap cborMap acm atm (Some tcm))"
    by (rule unknown_fail_closed(1))
qed

text \<open>
  C4. The claim: with an active Term Codec Map, any key of a binary map that has no
  entry makes decoding fail with \<^verbatim>\<open>ERR_UNKNOWN_CBORLD_TERM\<close>; no such key is dropped
  or passed through. A \<^verbatim>\<open>Map\<close> that is an element of an array is never checked: the
  test of line 104 asks for a plain object, which a decoded \<^verbatim>\<open>Map\<close> is not, so
  lines 107--111 load the whole \<^verbatim>\<open>Map\<close> into the codec of the array's key. For the
  payload \<^verbatim>\<open>Map{1: [Map{9: "x"}]}\<close>, where 9 has no entry, the builder returns a
  Decoding Map, and \<^verbatim>\<open>fromCborld\<close> returns \<^verbatim>\<open>{name: []}\<close>: the key is gone without
  an error.
\<close>

theorem map_in_array_not_checked:
  "tcm_get exampleTcm (JNum 9) = None
   \<and> generateDecodingMap (JMap [(JNum 1, JArr [JMap [(JNum 9, JStr ''x'')]])])
        None None (Some exampleTcm) =
       Inr (JMap [(JStr ''name'',
                   JArr [JCodec SimpleTypeCodec (Value (JMap [(JNum 9, JStr ''x'')])) None
                           (Some exampleTcm)])])
   \<and> returned (fromCborld
         (hostDecoding [0xD9, 0x05, 0x01, 0xA1, 0x01, 0x81, 0xA1, 0x09, 0x61, 0x78]
            (JTagged 0x0501 (JMap [(JNum 1, JArr [JMap [(JNum 9, JStr ''x'')]])])))
         (Suc stack) [0xD9, 0x05, 0x01, 0xA1, 0x01, 0x81, 0xA1, 0x09, 0x61, 0x78]
         None None (\<lambda>url. Inl (Thrown ''offline'')) False) =
       Inr (JObj [(''name'', JArr [])])"
  by (simp add: fromCborld_def finish_def hostDecoding_def exampleHost_def exampleTcm_def
        codecEntry_def resolveTerm_def loadCodec_def isFunction_def propertyKey_def)

subsection \<open>The entry for the application term map\<close>




text \<open>
  C9. The recursive call for a nested map (lines 96--98) passes no application term
  map, so the synthesized entry can stand in the top-level Decoding Map only: in
  the Decoding Map built from a decoded CBOR value, whatever the application term
  map, no nested Decoding Map and no sequence, at any depth, holds a codec that
  wraps an application term map.
\<close>

theorem nested_maps_not_synthesized:
  assumes "\<not> synthesized cborMap"
    and "generateDecodingMap cborMap acm atm tcm = Inr (JMap dm)"
    and "(t, v) \<in> set dm"
    and "isMap v \<or> isArray v"
  shows "\<not> synthesized v
         \<and> generateValue key (JMap m) acm tcm = generateDecodingMap (JMap m) acm None tcm"
proof -
  from assms(2) obtain dm0 kvs where
    c: "codecEntry atm tcm = Inr dm0" and
    e: "entries cborMap = Inr kvs" and
    g: "generateEntries kvs acm tcm dm0 = Inr dm"
    by (auto split: sum.splits)
  have "(t, v) \<in> set dm0 \<or> \<not> synthesized v"
    using generateEntries_values [OF g synthesized_entries [OF e assms(1)] assms(3)] .
  then have "\<not> synthesized v"
    using codecEntry_values [OF c] assms(4) by auto
  then show ?thesis by simp
qed

text \<open>
  The statement at a concrete input: the binary map \<^verbatim>\<open>{2: {1: "Bob"}}\<close> with an
  application term map.
\<close>

theorem nested_maps_not_synthesized_witness:
  "\<not> synthesized (JMap [(JNum 2, JMap [(JNum 1, JStr ''Bob'')])])
   \<and> generateDecodingMap (JMap [(JNum 2, JMap [(JNum 1, JStr ''Bob'')])]) None (Some exampleAtm)
        (Some exampleTcm) =
       Inr (JMap [(JStr ''@codec'',
                   JCodec CodecMapCodec (TermMap exampleAtm) None (Some exampleTcm)),
                  (JStr ''knows'',
                   JMap [(JStr ''name'',
                          JCodec SimpleTypeCodec (Value (JStr ''Bob'')) None (Some exampleTcm))])])
   \<and> isMap (JMap [(JStr ''name'',
                   JCodec SimpleTypeCodec (Value (JStr ''Bob'')) None (Some exampleTcm))])
   \<and> \<not> synthesized (JMap [(JStr ''name'',
                   JCodec SimpleTypeCodec (Value (JStr ''Bob'')) None (Some exampleTcm))])"
proof -
  have s: "\<not> synthesized (JMap [(JNum 2, JMap [(JNum 1, JStr ''Bob'')])])"
    by simp
  have g: "generateDecodingMap (JMap [(JNum 2, JMap [(JNum 1, JStr ''Bob'')])]) None
        (Some exampleAtm) (Some exampleTcm) =
       Inr (JMap [(JStr ''@codec'',
                   JCodec CodecMapCodec (TermMap exampleAtm) None (Some exampleTcm)),
                  (JStr ''knows'',
                   JMap [(JStr ''name'',
                          JCodec SimpleTypeCodec (Value (JStr ''Bob'')) None (Some exampleTcm))])])"
    by (simp add: exampleTcm_def exampleAtm_def codecEntry_def resolveTerm_def loadCodec_def)
  have m: "(JStr ''knows'',
            JMap [(JStr ''name'',
                   JCodec SimpleTypeCodec (Value (JStr ''Bob'')) None (Some exampleTcm))])
           \<in> set [(JStr ''@codec'',
                   JCodec CodecMapCodec (TermMap exampleAtm) None (Some exampleTcm)),
                  (JStr ''knows'',
                   JMap [(JStr ''name'',
                          JCodec SimpleTypeCodec (Value (JStr ''Bob'')) None (Some exampleTcm))])]"
    by simp
  have i: "isMap (JMap [(JStr ''name'',
                   JCodec SimpleTypeCodec (Value (JStr ''Bob'')) None (Some exampleTcm))])
           \<or> isArray (JMap [(JStr ''name'',
                   JCodec SimpleTypeCodec (Value (JStr ''Bob'')) None (Some exampleTcm))])"
    by simp
  have n: "\<not> synthesized (JMap [(JStr ''name'',
                   JCodec SimpleTypeCodec (Value (JStr ''Bob'')) None (Some exampleTcm))])"
    using nested_maps_not_synthesized [OF s g m i] by (simp del: synthesized.simps)
  have i': "isMap (JMap [(JStr ''name'',
                   JCodec SimpleTypeCodec (Value (JStr ''Bob'')) None (Some exampleTcm))])"
    by simp
  show ?thesis
    using s g i' n by (intro conjI)
qed

section \<open>Properties of the Tree Realizer\<close>

lemma map_set_twice: "map_set (map_set d k x) k v = map_set d k v"
  by (induction d) auto

lemma map_set_forEach:
  "map_set (foldl (\<lambda>d x. map_set d k x) doc xs) k v = map_set doc k v"
  by (induction xs arbitrary: doc) (auto simp: map_set_twice)

text \<open>
  Inside the \<^verbatim>\<open>forEach\<close> the tests of lines 140 and 142 look at \<^verbatim>\<open>value\<close>, the
  array, and not at \<^verbatim>\<open>element\<close>: both are false, every element is assigned to
  the property as it is, and nothing is pushed onto \<^verbatim>\<open>decodedValue\<close>.
\<close>

lemma decodeElements_array:
  "decodeElements h depth dm key (JArr els) xs doc =
     Inr (foldl (\<lambda>d x. map_set d (propertyKey h key) x) doc xs)"
  by (induction xs arbitrary: doc) (auto simp: isFunction_def)

lemma decodeEntries_array:
  "decodeEntries h depth dm ((key, JArr elements) # rest) doc =
     decodeEntries h depth dm rest (map_set doc (propertyKey h key) (JArr []))"
  by (simp add: decodeElements_array map_set_forEach)

text \<open>
  A decoding map with a \<^verbatim>\<open>Map\<close> among its values is never realized, whatever the
  room on the stack: line 134 passes the map being walked to the recursive call.
\<close>

lemma decodeEntries_nested:
  "list_ex (\<lambda>(k, v). isMap v) kvs \<Longrightarrow> isl (decodeMap h depth dm) \<Longrightarrow>
   isl (decodeEntries h depth dm kvs doc)"
proof (induction kvs arbitrary: doc)
  case Nil
  then show ?case by simp
next
  case (Cons p kvs)
  obtain k v where p: "p = (k, v)" by (cases p)
  show ?case
  proof (cases "isMap v")
    case True
    then obtain m where "v = JMap m" by (cases v) auto
    then show ?thesis
      using p Cons.prems(2) by (auto split: sum.splits)
  next
    case False
    then have "list_ex (\<lambda>(k, v). isMap v) kvs"
      using Cons.prems(1) p by simp
    then have "\<And>d. isl (decodeEntries h depth dm kvs d)"
      using Cons.IH Cons.prems(2) by simp
    then show ?thesis
      using p False by (cases v) (auto simp: decodeElements_array split: sum.splits)
  qed
qed

lemma decodeMap_nested:
  "list_ex (\<lambda>(k, v). isMap v) kvs \<Longrightarrow> isl (decodeMap h depth (JMap kvs))"
proof (induction depth)
  case 0
  then show ?case by simp
next
  case (Suc depth)
  then have "isl (decodeEntries h depth (JMap kvs) kvs [])"
    by (simp add: decodeEntries_nested)
  then show ?case
    by (auto split: sum.splits)
qed

text \<open>
  A value that is neither a \<^verbatim>\<open>Map\<close> nor an array and whose \<^verbatim>\<open>decodeCBOR\<close> can be
  read and is missing or falsy is rejected with the key and the value.
\<close>

lemma decodeEntries_unknown_encoding:
  "\<not> isMap v \<Longrightarrow> \<not> isArray v \<Longrightarrow> hasDecodeCBOR v = Inr False \<Longrightarrow>
   decodeEntries h depth dm ((key, v) # rest) doc =
     Inl (CborldError ''ERR_UNKNOWN_CBORLD_ENCODING'' (UnknownEncoding key v))"
  by (cases v) (auto simp: decodeLeaf_def)

text \<open>
  C1. The claim: for a pair whose value is a nested Decoding Map, the realizer
  recurses on that nested value and stores its realization under the term. Line
  134 calls \<^verbatim>\<open>_decodeMap(decodingMap)\<close>, the map being walked, so the call meets the
  same pair again: for the decoding map \<^verbatim>\<open>{a: {b: codec}}\<close> the realizer returns no
  document whatever the room on the stack, it ends in the engine's
  \<^verbatim>\<open>RangeError\<close>.
\<close>

theorem nested_map_never_realized:
  "decodeMap h depth
     (JMap [(JStr ''a'', JMap [(JStr ''b'', JCodec SimpleTypeCodec (Value (JNum 1)) None None)])])
   = Inl RangeError"
  by (induction depth) simp_all

text \<open>
  C2. The claim: for a pair whose value is a sequence, every element is realized
  and the results are collected, in order, into the sequence bound to the term.
  The code binds the empty array: a decoding map with two codec instances under
  \<^verbatim>\<open>name\<close> is realized as \<^verbatim>\<open>{name: []}\<close>, and \<^verbatim>\<open>decodeCBOR\<close> is never called.
\<close>

theorem array_realized_empty:
  "decodeMap h (Suc depth)
     (JMap [(JStr ''name'',
             JArr [JCodec SimpleTypeCodec (Value (JStr ''Alice'')) None None,
                   JCodec SimpleTypeCodec (Value (JStr ''Bob'')) None None])])
   = Inr (JObj [(''name'', JArr [])])"
  by (simp add: isFunction_def propertyKey_def)

text \<open>
  C7. The claim: a pair whose value is neither a nested Decoding Map, nor a
  sequence, nor codec-bearing makes the realizer fail with
  \<^verbatim>\<open>ERR_UNKNOWN_CBORLD_ENCODING\<close>. For null (and undefined) the test
  \<^verbatim>\<open>value.decodeCBOR\<close> of line 147 throws before the \<^verbatim>\<open>else\<close> branch is reached:
  the decoding map \<^verbatim>\<open>{k: null}\<close> ends in a \<^verbatim>\<open>TypeError\<close>.
\<close>

theorem null_leaf_type_error:
  "decodeMap h (Suc depth) (JMap [(JStr ''k'', JNull)]) = Inl TypeError"
  by (simp add: decodeLeaf_def)

section \<open>Properties of the Header Dispatcher\<close>

text \<open>
  C5. When the tag of the decoded value is \<^verbatim>\<open>0x0500\<close>, \<^verbatim>\<open>fromCborld\<close> returns the
  wrapped value unchanged; so the bytes of a document \<^verbatim>\<open>D\<close> wrapped in tag
  \<^verbatim>\<open>0x0500\<close>, which \<^verbatim>\<open>cbor.decode\<close> reads back as \<^verbatim>\<open>Tagged(0x0500, D)\<close>, decode to
  \<^verbatim>\<open>D\<close>.
\<close>

theorem uncompressed_passthrough:
  assumes "cbor_decode h cborldBytes = Inr cborMap"
    and "tagOf cborMap = Inr (JNum 0x0500)"
  shows "returned (fromCborld h stack cborldBytes acm atm documentLoader diagnose)
         = Inr (valueOf cborMap)
         \<and> (cborMap = JTagged 0x0500 D \<longrightarrow>
              returned (fromCborld h stack cborldBytes acm atm documentLoader diagnose) = Inr D)"
  using assms by (auto simp: fromCborld_def finish_def)

text \<open>
  The statement at a concrete input: the bytes of \<^verbatim>\<open>1280({"name": "Alice"})\<close>.
\<close>

theorem uncompressed_passthrough_witness:
  "cbor_decode exampleHost
     [0xD9, 0x05, 0x00, 0xA1, 0x64, 0x6E, 0x61, 0x6D, 0x65, 0x65, 0x41, 0x6C, 0x69, 0x63, 0x65]
   = Inr (JTagged 0x0500 (JObj [(''name'', JStr ''Alice'')]))
   \<and> tagOf (JTagged 0x0500 (JObj [(''name'', JStr ''Alice'')])) = Inr (JNum 0x0500)
   \<and> returned (fromCborld exampleHost 0
        [0xD9, 0x05, 0x00, 0xA1, 0x64, 0x6E, 0x61, 0x6D, 0x65, 0x65, 0x41, 0x6C, 0x69, 0x63, 0x65]
        None None (\<lambda>url. Inl (Thrown ''offline'')) False)
       = Inr (JObj [(''name'', JStr ''Alice'')])"
proof -
  have d: "cbor_decode exampleHost
     [0xD9, 0x05, 0x00, 0xA1, 0x64, 0x6E, 0x61, 0x6D, 0x65, 0x65, 0x41, 0x6C, 0x69, 0x63, 0x65]
   = Inr (JTagged 0x0500 (JObj [(''name'', JStr ''Alice'')]))"
    by (simp add: exampleHost_def)
  have t: "tagOf (JTagged 0x0500 (JObj [(''name'', JStr ''Alice'')])) = Inr (JNum 0x0500)"
    by simp
  show ?thesis
    using uncompressed_passthrough
      [OF d t, of 0 None None "\<lambda>url. Inl (Thrown ''offline'')" False
         "JObj [(''name'', JStr ''Alice'')]"]
      d t by simp
qed

text \<open>
  When the read of \<^verbatim>\<open>cborMap.tag\<close> succeeds and gives neither \<^verbatim>\<open>0x0500\<close> nor
  \<^verbatim>\<open>0x0501\<close>, \<^verbatim>\<open>fromCborld\<close> throws \<^verbatim>\<open>ERR_NOT_CBORLD\<close> with a message that names
  both tags, and does nothing else: no stage is entered, the document loader is
  not asked for anything, and nothing is passed to \<^verbatim>\<open>diagnose\<close>.
\<close>

lemma unknown_tag_rejected:
  assumes "cbor_decode h cborldBytes = Inr cborMap"
    and "tagOf cborMap = Inr tag"
    and "tag \<noteq> JNum 0x0500"
    and "tag \<noteq> JNum 0x0501"
  shows "fromCborld h stack cborldBytes acm atm documentLoader diagnose =
           \<lparr>returned = Inl (CborldError ''ERR_NOT_CBORLD''
              (Text ''Input is not valid CBOR-LD; missing CBOR-LD header (0x0500 or 0x501).'')),
            stages = [], loaderCalls = [], diagnostics = []\<rparr>"
  using assms by (simp add: fromCborld_def throw_def)

text \<open>
  C6. The claim: every input whose decoded top-level tag is neither \<^verbatim>\<open>0x0500\<close> nor
  \<^verbatim>\<open>0x0501\<close> fails with \<^verbatim>\<open>ERR_NOT_CBORLD\<close>. Line 42 reads \<^verbatim>\<open>cborMap.tag\<close> as a
  property of whatever was decoded. The byte \<^verbatim>\<open>0xF6\<close> decodes to null, which has no
  tag, and the read throws a \<^verbatim>\<open>TypeError\<close>. The bytes of the untagged map
  \<^verbatim>\<open>{"tag": 1280, "value": "x"}\<close> decode to a plain object whose property \<^verbatim>\<open>tag\<close> is
  \<^verbatim>\<open>0x0500\<close>: it is taken for an uncompressed envelope and \<^verbatim>\<open>"x"\<close> is returned.
\<close>

theorem untagged_input_not_rejected:
  "fromCborld (hostDecoding [0xF6] JNull) stack [0xF6] None None
     (\<lambda>url. Inl (Thrown ''offline'')) diagnose =
     \<lparr>returned = Inl TypeError, stages = [], loaderCalls = [], diagnostics = []\<rparr>
   \<and> returned (fromCborld
         (hostDecoding
            [0xA2, 0x63, 0x74, 0x61, 0x67, 0x19, 0x05, 0x00,
             0x65, 0x76, 0x61, 0x6C, 0x75, 0x65, 0x61, 0x78]
            (JObj [(''tag'', JNum 0x0500), (''value'', JStr ''x'')]))
         stack
         [0xA2, 0x63, 0x74, 0x61, 0x67, 0x19, 0x05, 0x00,
          0x65, 0x76, 0x61, 0x6C, 0x75, 0x65, 0x61, 0x78]
         None None (\<lambda>url. Inl (Thrown ''offline'')) diagnose) =
       Inr (JStr ''x'')"
  by (simp add: fromCborld_def finish_def throw_def hostDecoding_def)

text \<open>
  C10. When the tag of the decoded value is \<^verbatim>\<open>0x0500\<close>, \<^verbatim>\<open>fromCborld\<close> never
  calls the document loader (it does not even enter the stage that holds it), and
  two calls that differ only in \<^verbatim>\<open>appContextMap\<close> and \<^verbatim>\<open>appTermMap\<close> have the same
  outcome.
\<close>

theorem uncompressed_ignores_application_maps:
  assumes "cbor_decode h cborldBytes = Inr cborMap"
    and "tagOf cborMap = Inr (JNum 0x0500)"
  shows "loaderCalls (fromCborld h stack cborldBytes acm atm documentLoader diagnose) = []
         \<and> stages (fromCborld h stack cborldBytes acm atm documentLoader diagnose) = []
         \<and> fromCborld h stack cborldBytes acm atm documentLoader diagnose
           = fromCborld h stack cborldBytes acm' atm' documentLoader diagnose"
  using assms by (simp add: fromCborld_def finish_def)

text \<open>
  The statement at a concrete input: the bytes of \<^verbatim>\<open>1280({"name": "Alice"})\<close>,
  decoded without and with application maps.
\<close>

theorem uncompressed_ignores_application_maps_witness:
  "cbor_decode exampleHost
     [0xD9, 0x05, 0x00, 0xA1, 0x64, 0x6E, 0x61, 0x6D, 0x65, 0x65, 0x41, 0x6C, 0x69, 0x63, 0x65]
   = Inr (JTagged 0x0500 (JObj [(''name'', JStr ''Alice'')]))
   \<and> tagOf (JTagged 0x0500 (JObj [(''name'', JStr ''Alice'')])) = Inr (JNum 0x0500)
   \<and> loaderCalls (fromCborld exampleHost 0
        [0xD9, 0x05, 0x00, 0xA1, 0x64, 0x6E, 0x61, 0x6D, 0x65, 0x65, 0x41, 0x6C, 0x69, 0x63, 0x65]
        None None (\<lambda>url. Inl (Thrown ''offline'')) False) = []
   \<and> fromCborld exampleHost 0
        [0xD9, 0x05, 0x00, 0xA1, 0x64, 0x6E, 0x61, 0x6D, 0x65, 0x65, 0x41, 0x6C, 0x69, 0x63, 0x65]
        None None (\<lambda>url. Inl (Thrown ''offline'')) False
     = fromCborld exampleHost 0
        [0xD9, 0x05, 0x00, 0xA1, 0x64, 0x6E, 0x61, 0x6D, 0x65, 0x65, 0x41, 0x6C, 0x69, 0x63, 0x65]
        (Some [(''https://example.org/ctx'', 32768)]) (Some exampleAtm)
        (\<lambda>url. Inl (Thrown ''offline'')) False"
proof -
  have d: "cbor_decode exampleHost
     [0xD9, 0x05, 0x00, 0xA1, 0x64, 0x6E, 0x61, 0x6D, 0x65, 0x65, 0x41, 0x6C, 0x69, 0x63, 0x65]
   = Inr (JTagged 0x0500 (JObj [(''name'', JStr ''Alice'')]))"
    by (simp add: exampleHost_def)
  have t: "tagOf (JTagged 0x0500 (JObj [(''name'', JStr ''Alice'')])) = Inr (JNum 0x0500)"
    by simp
  show ?thesis
    using uncompressed_ignores_application_maps
      [OF d t, of 0 None None "\<lambda>url. Inl (Thrown ''offline'')" False
         "Some [(''https://example.org/ctx'', 32768)]" "Some exampleAtm"] d t
    by blast
qed

text \<open>
  The compressed path at a concrete input: the bytes of \<^verbatim>\<open>1281(Map{1: "Alice"})\<close>
  decode to \<^verbatim>\<open>{name: "Alice"}\<close> as soon as the stack has room for one activation
  of \<^verbatim>\<open>_decodeMap\<close>.
\<close>

lemma compressed_example:
  "returned (fromCborld exampleHost (Suc stack)
      [0xD9, 0x05, 0x01, 0xA1, 0x01, 0x65, 0x41, 0x6C, 0x69, 0x63, 0x65]
      None None (\<lambda>url. Inl (Thrown ''offline'')) False)
   = Inr (JObj [(''name'', JStr ''Alice'')])"
  by (simp add: fromCborld_def finish_def exampleHost_def exampleTcm_def codecEntry_def
        resolveTerm_def loadCodec_def decodeLeaf_def propertyKey_def)

end
